theory Spec2Isabelle
  imports Complex_Main "HOL-Library.Word"
begin

unbundle bit_operations_syntax

section \<open>RandomProbePointSet: the probe point store and the 3/4-point bed equation\<close>

text \<open>
  The embedding follows \<^verbatim>\<open>src/Movement/BedProbing/RandomProbePointSet.cpp\<close> function by
  function. Conventions:

  \<^item> A C++ \<^verbatim>\<open>float\<close> is a \<^typ>\<open>real\<close>: finite values, exact arithmetic, the usual total
    order. Rounding, infinities and NaN are outside this part of the model. A division by
    zero, which gives a non-finite value in the firmware, is 0 in HOL; no statement below
    relies on the value of such a quotient.
  \<^item> The ordering check compares coordinates, and a comparison with a NaN operand is
    false in C++ whichever way it is written. For the statement about the check itself the
    coordinates are therefore also modelled as IEEE values (finite numbers, the two
    infinities, NaN) in \<open>GoodProbePointOrdering_float\<close>, which agrees with
    \<open>GoodProbePointOrdering\<close> on finite coordinates.
  \<^item> The arrays \<^verbatim>\<open>xBedProbePoints\<close>, \<^verbatim>\<open>yBedProbePoints\<close>, \<^verbatim>\<open>zBedProbePoints\<close> and
    \<^verbatim>\<open>probePointSet\<close> are functions from the index to the slot. The constant
    \<^verbatim>\<open>MaxProbePoints\<close> is declared outside the sources at hand, so it is a parameter of
    the functions that loop up to it. The source checks no index (an index at or beyond
    \<^verbatim>\<open>MaxProbePoints\<close> is undefined behaviour there), and neither does the model: the
    slots with an index below \<^verbatim>\<open>MaxProbePoints\<close> are the records of the store.
  \<^item> \<^verbatim>\<open>size_t\<close> counts and indices are \<^typ>\<open>nat\<close>; the status byte of a record is an
    \<^typ>\<open>8 word\<close> with the source's bitwise operations.
  \<^item> The text written to \<^verbatim>\<open>reply\<close> is kept as a structured value (which message, with
    which arguments) instead of formatted characters.
\<close>

subsection \<open>Status flags\<close>

type_synonym PointCoordinateSet = "8 word"

text \<open>Modelled from the spec: the enumerator \<^verbatim>\<open>unset\<close> is declared in RandomProbePointSet.h,
  which is not among the sources; it is the status of a record with no flag.\<close>
definition unset :: PointCoordinateSet where
  "unset = 0"

text \<open>Modelled from the spec: the enumerator \<^verbatim>\<open>xySet\<close> is declared in RandomProbePointSet.h,
  which is not among the sources; the spec describes the status as independent bit flags,
  here distinct single bits.\<close>
definition xySet :: PointCoordinateSet where
  "xySet = 1"

text \<open>Modelled from the spec: the enumerator \<^verbatim>\<open>zSet\<close> is declared in RandomProbePointSet.h,
  which is not among the sources; an independent bit flag.\<close>
definition zSet :: PointCoordinateSet where
  "zSet = 2"

text \<open>Modelled from the spec: the enumerator \<^verbatim>\<open>xyCorrected\<close> is declared in
  RandomProbePointSet.h, which is not among the sources; an independent bit flag.\<close>
definition xyCorrected :: PointCoordinateSet where
  "xyCorrected = 4"

text \<open>Modelled from the spec: the enumerator \<^verbatim>\<open>probeError\<close> is declared in
  RandomProbePointSet.h, which is not among the sources; an independent bit flag.\<close>
definition probeError :: PointCoordinateSet where
  "probeError = 8"

text \<open>Modelled from the spec: \<^verbatim>\<open>fsquare\<close> is a helper declared outside the sources at hand;
  the spec's deviation formula uses it as the square of its argument.\<close>
definition fsquare :: "real \<Rightarrow> real" where
  "fsquare arg = arg * arg"

subsection \<open>The object\<close>

record RandomProbePointSet =
  numBedCompensationPoints :: nat
  aX :: real
  aY :: real
  aC :: real
  xRectangle :: real
  yRectangle :: real
  xBedProbePoints :: "nat \<Rightarrow> real"
  yBedProbePoints :: "nat \<Rightarrow> real"
  zBedProbePoints :: "nat \<Rightarrow> real"
  probePointSet :: "nat \<Rightarrow> PointCoordinateSet"

subsection \<open>Construction\<close>

text \<open>The constructor runs on raw storage: it sets \<^verbatim>\<open>numBedCompensationPoints\<close> in the member
  initialiser, then the status and the height of every record in the loop. The
  coordinates and the coefficients keep whatever the storage held.\<close>

function RandomProbePointSet_loop :: "nat \<Rightarrow> nat \<Rightarrow> RandomProbePointSet \<Rightarrow> RandomProbePointSet" where
  "RandomProbePointSet_loop MaxProbePoints point s =
     (if point < MaxProbePoints
      then RandomProbePointSet_loop MaxProbePoints (Suc point)
             (s\<lparr>probePointSet := (probePointSet s)(point := unset),
                zBedProbePoints := (zBedProbePoints s)(point := 0)\<rparr>)
      else s)"
  by pat_completeness auto
termination
  by (relation "measure (\<lambda>(MaxProbePoints, point, s). MaxProbePoints - point)") auto

definition RandomProbePointSet_ctor :: "nat \<Rightarrow> RandomProbePointSet \<Rightarrow> RandomProbePointSet" where
  "RandomProbePointSet_ctor MaxProbePoints raw =
     RandomProbePointSet_loop MaxProbePoints 0 (raw\<lparr>numBedCompensationPoints := 0\<rparr>)"

subsection \<open>Recording points\<close>

definition SetXYBedProbePoint :: "nat \<Rightarrow> real \<Rightarrow> real \<Rightarrow> RandomProbePointSet \<Rightarrow> RandomProbePointSet" where
  "SetXYBedProbePoint index x y s =
     s\<lparr>xBedProbePoints := (xBedProbePoints s)(index := x),
       yBedProbePoints := (yBedProbePoints s)(index := y),
       probePointSet := (probePointSet s)(index := probePointSet s index OR xySet)\<rparr>"

definition SetZBedProbePoint :: "nat \<Rightarrow> real \<Rightarrow> bool \<Rightarrow> bool \<Rightarrow> RandomProbePointSet \<Rightarrow> RandomProbePointSet" where
  "SetZBedProbePoint index z wasXyCorrected wasError s =
     (let s1 = s\<lparr>zBedProbePoints := (zBedProbePoints s)(index := z),
                 probePointSet := (probePointSet s)(index := probePointSet s index OR zSet)\<rparr>;
          s2 = (if wasXyCorrected
                then s1\<lparr>probePointSet := (probePointSet s1)(index := probePointSet s1 index OR xyCorrected)\<rparr>
                else s1\<lparr>probePointSet := (probePointSet s1)(index := probePointSet s1 index AND NOT xyCorrected)\<rparr>)
      in (if wasError
          then s2\<lparr>probePointSet := (probePointSet s2)(index := probePointSet s2 index OR probeError)\<rparr>
          else s2\<lparr>probePointSet := (probePointSet s2)(index := probePointSet s2 index AND NOT probeError)\<rparr>))"

function NumberOfProbePoints_loop :: "nat \<Rightarrow> nat \<Rightarrow> RandomProbePointSet \<Rightarrow> nat" where
  "NumberOfProbePoints_loop MaxProbePoints i s =
     (if i < MaxProbePoints
      then (if probePointSet s i AND (xySet OR zSet) \<noteq> (xySet OR zSet)
            then i
            else NumberOfProbePoints_loop MaxProbePoints (Suc i) s)
      else MaxProbePoints)"
  by pat_completeness auto
termination
  by (relation "measure (\<lambda>(MaxProbePoints, i, s). MaxProbePoints - i)") auto

definition NumberOfProbePoints :: "nat \<Rightarrow> RandomProbePointSet \<Rightarrow> nat" where
  "NumberOfProbePoints MaxProbePoints s = NumberOfProbePoints_loop MaxProbePoints 0 s"

function ClearProbeHeights_loop :: "nat \<Rightarrow> nat \<Rightarrow> RandomProbePointSet \<Rightarrow> RandomProbePointSet" where
  "ClearProbeHeights_loop MaxProbePoints i s =
     (if i < MaxProbePoints
      then ClearProbeHeights_loop MaxProbePoints (Suc i)
             (s\<lparr>probePointSet := (probePointSet s)(i := probePointSet s i AND NOT zSet)\<rparr>)
      else s)"
  by pat_completeness auto
termination
  by (relation "measure (\<lambda>(MaxProbePoints, i, s). MaxProbePoints - i)") auto

definition ClearProbeHeights :: "nat \<Rightarrow> RandomProbePointSet \<Rightarrow> RandomProbePointSet" where
  "ClearProbeHeights MaxProbePoints s = ClearProbeHeights_loop MaxProbePoints 0 s"

subsection \<open>Checks on the recorded points\<close>

function GoodProbePoints_loop :: "nat \<Rightarrow> nat \<Rightarrow> RandomProbePointSet \<Rightarrow> bool" where
  "GoodProbePoints_loop numPoints i s =
     (if i < numPoints
      then (if probePointSet s i AND (xySet OR zSet OR probeError) \<noteq> (xySet OR zSet)
            then False
            else GoodProbePoints_loop numPoints (Suc i) s)
      else True)"
  by pat_completeness auto
termination
  by (relation "measure (\<lambda>(numPoints, i, s). numPoints - i)") auto

definition GoodProbePoints :: "nat \<Rightarrow> RandomProbePointSet \<Rightarrow> bool" where
  "GoodProbePoints numPoints s = GoodProbePoints_loop numPoints 0 s"

definition GoodProbePointOrdering :: "nat \<Rightarrow> RandomProbePointSet \<Rightarrow> bool" where
  "GoodProbePointOrdering numPoints s =
     (if numPoints \<ge> 2 \<and> yBedProbePoints s 1 \<le> yBedProbePoints s 0 then False
      else if numPoints \<ge> 3 \<and> xBedProbePoints s 2 \<le> xBedProbePoints s 1 then False
      else if numPoints \<ge> 4 \<and> yBedProbePoints s 3 \<ge> yBedProbePoints s 2 then False
      else if numPoints \<ge> 4 \<and> xBedProbePoints s 0 \<ge> xBedProbePoints s 3 then False
      else True)"

subsection \<open>Fitting the bed equation\<close>

text \<open>What \<^verbatim>\<open>SetProbedBedEquation\<close> leaves in \<^verbatim>\<open>reply\<close>: the ordering complaint with the
  index \<^verbatim>\<open>min(numPoints, 4) - 1\<close>, the complaint about the number of points, or the list of
  the points the equation fits (one \<^verbatim>\<open>[x, y, z]\<close> group per point).\<close>

datatype reply_text =
  ClockwiseOrderReply nat
  | UnsupportedCountReply nat
  | BedEquationFitsReply "(real \<times> real \<times> real) list"

text \<open>The message handed to the platform on a successful fit.\<close>

datatype platform_message = DeprecationWarning

record fit_outcome =
  returned :: bool
  replied :: reply_text
  platform :: "platform_message list"
  store :: RandomProbePointSet

function fits_points_loop :: "nat \<Rightarrow> nat \<Rightarrow> RandomProbePointSet \<Rightarrow> (real \<times> real \<times> real) list \<Rightarrow> (real \<times> real \<times> real) list" where
  "fits_points_loop numPoints point s acc =
     (if point < numPoints
      then fits_points_loop numPoints (Suc point) s
             (acc @ [(xBedProbePoints s point, yBedProbePoints s point, zBedProbePoints s point)])
      else acc)"
  by pat_completeness auto
termination
  by (relation "measure (\<lambda>(numPoints, point, s, acc). numPoints - point)") auto

text \<open>The common tail of the two successful cases, from the assignment of
  \<^verbatim>\<open>numBedCompensationPoints\<close> to \<^verbatim>\<open>return false\<close>.\<close>

definition fit_accepted :: "nat \<Rightarrow> RandomProbePointSet \<Rightarrow> fit_outcome" where
  "fit_accepted numPoints s =
     \<lparr>returned = False,
      replied = BedEquationFitsReply (fits_points_loop numPoints 0 s []),
      platform = [DeprecationWarning],
      store = s\<lparr>numBedCompensationPoints := numPoints\<rparr>\<rparr>"

text \<open>On the ordering branch \<^verbatim>\<open>numPoints\<close> is at least 2, so the unsigned subtraction in
  \<^verbatim>\<open>min<unsigned int>(numPoints, 4) - 1\<close> does not wrap.\<close>

definition SetProbedBedEquation :: "nat \<Rightarrow> RandomProbePointSet \<Rightarrow> fit_outcome" where
  "SetProbedBedEquation numPoints s =
     (if \<not> GoodProbePointOrdering numPoints s
      then \<lparr>returned = True, replied = ClockwiseOrderReply (min numPoints 4 - 1), platform = [], store = s\<rparr>
      else if numPoints = 3
      then (let x10 = xBedProbePoints s 1 - xBedProbePoints s 0;
                y10 = yBedProbePoints s 1 - yBedProbePoints s 0;
                z10 = zBedProbePoints s 1 - zBedProbePoints s 0;
                x20 = xBedProbePoints s 2 - xBedProbePoints s 0;
                y20 = yBedProbePoints s 2 - yBedProbePoints s 0;
                z20 = zBedProbePoints s 2 - zBedProbePoints s 0;
                a = y10 * z20 - z10 * y20;
                b = z10 * x20 - x10 * z20;
                c = x10 * y20 - y10 * x20;
                d = - (xBedProbePoints s 1 * a + yBedProbePoints s 1 * b + zBedProbePoints s 1 * c)
            in fit_accepted numPoints (s\<lparr>aX := - a / c, aY := - b / c, aC := - d / c\<rparr>))
      else if numPoints = 4
      then fit_accepted numPoints
             (s\<lparr>xRectangle := 1 / (xBedProbePoints s 3 - xBedProbePoints s 0),
                yRectangle := 1 / (yBedProbePoints s 1 - yBedProbePoints s 0)\<rparr>)
      else \<lparr>returned = True, replied = UnsupportedCountReply numPoints, platform = [], store = s\<rparr>)"

subsection \<open>The height query\<close>

definition SecondDegreeTransformZ :: "real \<Rightarrow> real \<Rightarrow> RandomProbePointSet \<Rightarrow> real" where
  "SecondDegreeTransformZ x0 y0 s =
     (let x = (x0 - xBedProbePoints s 0) * xRectangle s;
          y = (y0 - yBedProbePoints s 0) * yRectangle s
      in (1 - x) * (1 - y) * zBedProbePoints s 0 + x * (1 - y) * zBedProbePoints s 3
         + (1 - x) * y * zBedProbePoints s 1 + x * y * zBedProbePoints s 2)"

definition GetInterpolatedHeightError :: "real \<Rightarrow> real \<Rightarrow> RandomProbePointSet \<Rightarrow> real" where
  "GetInterpolatedHeightError x y s =
     (if numBedCompensationPoints s = 3 then aX s * x + aY s * y + aC s
      else if numBedCompensationPoints s = 4 then SecondDegreeTransformZ x y s
      else 0)"

subsection \<open>The report of the probe heights\<close>

text \<open>One entry of the report per record: \<^verbatim>\<open>" not set"\<close>, \<^verbatim>\<open>" probing failed"\<close> or the height.\<close>

datatype height_text = NotSetText | ProbingFailedText | HeightText real

record probe_report =
  report_heights :: "height_text list"
  report_mean :: real
  report_deviation :: real

function ReportProbeHeights_loop :: "nat \<Rightarrow> nat \<Rightarrow> RandomProbePointSet \<Rightarrow> height_text list \<times> real \<times> real \<Rightarrow> height_text list \<times> real \<times> real" where
  "ReportProbeHeights_loop numPoints i s (reply, sum_z, sumOfSquares) =
     (if i < numPoints
      then ReportProbeHeights_loop numPoints (Suc i) s
             (if probePointSet s i AND (xySet OR zSet) \<noteq> (xySet OR zSet)
              then (reply @ [NotSetText], sum_z, sumOfSquares)
              else if probePointSet s i AND probeError \<noteq> 0
              then (reply @ [ProbingFailedText], sum_z, sumOfSquares)
              else (reply @ [HeightText (zBedProbePoints s i)],
                    sum_z + zBedProbePoints s i,
                    sumOfSquares + fsquare (zBedProbePoints s i)))
      else (reply, sum_z, sumOfSquares))"
  by pat_completeness auto
termination
  by (relation "measure (\<lambda>(numPoints, i, s, acc). numPoints - i)") auto

definition ReportProbeHeights :: "nat \<Rightarrow> RandomProbePointSet \<Rightarrow> probe_report" where
  "ReportProbeHeights numPoints s =
     (case ReportProbeHeights_loop numPoints 0 s ([], 0, 0) of
        (reply, sum_z, sumOfSquares) \<Rightarrow>
          (let mean = sum_z / real numPoints;
               stdDev = sqrt (max (sumOfSquares / real numPoints - fsquare mean) 0)
           in \<lparr>report_heights = reply, report_mean = mean, report_deviation = stdDev\<rparr>))"

declare RandomProbePointSet_loop.simps [simp del]
declare NumberOfProbePoints_loop.simps [simp del]
declare ClearProbeHeights_loop.simps [simp del]
declare GoodProbePoints_loop.simps [simp del]
declare fits_points_loop.simps [simp del]
declare ReportProbeHeights_loop.simps [simp del]

subsection \<open>Sequences of calls\<close>

text \<open>The member functions that change the object, as the calls a client can make, and
  the object after a sequence of such calls.\<close>

datatype operation =
  CallSetXYBedProbePoint nat real real
  | CallSetZBedProbePoint nat real bool bool
  | CallClearProbeHeights
  | CallSetProbedBedEquation nat

fun perform :: "nat \<Rightarrow> RandomProbePointSet \<Rightarrow> operation \<Rightarrow> RandomProbePointSet" where
  "perform MaxProbePoints s (CallSetXYBedProbePoint index x y) = SetXYBedProbePoint index x y s"
| "perform MaxProbePoints s (CallSetZBedProbePoint index z wasXyCorrected wasError) =
     SetZBedProbePoint index z wasXyCorrected wasError s"
| "perform MaxProbePoints s CallClearProbeHeights = ClearProbeHeights MaxProbePoints s"
| "perform MaxProbePoints s (CallSetProbedBedEquation numPoints) = store (SetProbedBedEquation numPoints s)"

text \<open>A storage content to run the functions on: every coordinate and coefficient 7,
  every status byte with all four flags, a plane model in place.\<close>

definition used_storage :: RandomProbePointSet where
  "used_storage =
     \<lparr>numBedCompensationPoints = 3, aX = 7, aY = 7, aC = 7, xRectangle = 7, yRectangle = 7,
      xBedProbePoints = (\<lambda>i. 7), yBedProbePoints = (\<lambda>i. 7), zBedProbePoints = (\<lambda>i. 7),
      probePointSet = (\<lambda>i. 15)\<rparr>"


subsection \<open>Vocabulary of the statements\<close>

text \<open>A record has a flag when the source's test \<^verbatim>\<open>(probePointSet[i] & flag) != 0\<close> holds.\<close>

definition has_flag :: "PointCoordinateSet \<Rightarrow> PointCoordinateSet \<Rightarrow> bool" where
  "has_flag p flag = (p AND flag \<noteq> 0)"

text \<open>The records whose height counts: both \<^verbatim>\<open>xySet\<close> and \<^verbatim>\<open>zSet\<close>, no \<^verbatim>\<open>probeError\<close>;
  and their heights among the first \<open>n\<close> records, in index order.\<close>

definition valid_record :: "RandomProbePointSet \<Rightarrow> nat \<Rightarrow> bool" where
  "valid_record s i = (has_flag (probePointSet s i) xySet \<and> has_flag (probePointSet s i) zSet
     \<and> \<not> has_flag (probePointSet s i) probeError)"

definition valid_heights :: "nat \<Rightarrow> RandomProbePointSet \<Rightarrow> real list" where
  "valid_heights n s = map (zBedProbePoints s) (filter (valid_record s) [0..<n])"

text \<open>Mean and population standard deviation of a list of heights, as the specification
  words them: \<open>E[z]\<close> and \<open>sqrt (max 0 (E[z\<^sup>2] - E[z]\<^sup>2))\<close> over the values of the list.\<close>

definition spec_mean :: "real list \<Rightarrow> real" where
  "spec_mean zs = sum_list zs / real (length zs)"

definition spec_deviation :: "real list \<Rightarrow> real" where
  "spec_deviation zs =
     sqrt (max 0 (sum_list (map (\<lambda>z. z * z) zs) / real (length zs) - spec_mean zs * spec_mean zs))"

text \<open>The values \<^verbatim>\<open>numBedCompensationPoints\<close> is meant to take.\<close>

definition count_ok :: "RandomProbePointSet \<Rightarrow> bool" where
  "count_ok s = (numBedCompensationPoints s = 0 \<or> numBedCompensationPoints s = 3 \<or> numBedCompensationPoints s = 4)"

subsection \<open>The ordering check on IEEE values\<close>

text \<open>A \<^verbatim>\<open>float\<close> as the comparisons see it: a finite number, an infinity, or NaN. The
  two zeros compare equal and are both \<open>Finite 0\<close>.\<close>

datatype float = NaN | MinusInfinity | Finite real | PlusInfinity

text \<open>The C++ operators \<^verbatim>\<open><=\<close> and \<^verbatim>\<open><\<close> on \<^verbatim>\<open>float\<close>: false when an operand is NaN, the
  order of the extended reals otherwise. \<^verbatim>\<open>a >= b\<close> and \<^verbatim>\<open>a > b\<close> are \<^verbatim>\<open>b <= a\<close> and
  \<^verbatim>\<open>b < a\<close>.\<close>

fun float_less_eq :: "float \<Rightarrow> float \<Rightarrow> bool" where
  "float_less_eq NaN b = False"
| "float_less_eq a NaN = False"
| "float_less_eq MinusInfinity b = True"
| "float_less_eq a PlusInfinity = True"
| "float_less_eq (Finite a) (Finite b) = (a \<le> b)"
| "float_less_eq a b = False"

fun float_less :: "float \<Rightarrow> float \<Rightarrow> bool" where
  "float_less NaN b = False"
| "float_less a NaN = False"
| "float_less (Finite a) (Finite b) = (a < b)"
| "float_less a MinusInfinity = False"
| "float_less MinusInfinity b = True"
| "float_less PlusInfinity b = False"
| "float_less a PlusInfinity = True"

definition float_greater_eq :: "float \<Rightarrow> float \<Rightarrow> bool" where
  "float_greater_eq a b = float_less_eq b a"

definition float_greater :: "float \<Rightarrow> float \<Rightarrow> bool" where
  "float_greater a b = float_less b a"

text \<open>\<^verbatim>\<open>GoodProbePointOrdering\<close> (lines 196 to 215 of the source) once more, reading the
  arrays \<^verbatim>\<open>xBedProbePoints\<close> and \<^verbatim>\<open>yBedProbePoints\<close> as arrays of IEEE values.\<close>

definition GoodProbePointOrdering_float :: "nat \<Rightarrow> (nat \<Rightarrow> float) \<Rightarrow> (nat \<Rightarrow> float) \<Rightarrow> bool" where
  "GoodProbePointOrdering_float numPoints xPoints yPoints =
     (if numPoints \<ge> 2 \<and> float_less_eq (yPoints 1) (yPoints 0) then False
      else if numPoints \<ge> 3 \<and> float_less_eq (xPoints 2) (xPoints 1) then False
      else if numPoints \<ge> 4 \<and> float_greater_eq (yPoints 3) (yPoints 2) then False
      else if numPoints \<ge> 4 \<and> float_greater_eq (xPoints 0) (xPoints 3) then False
      else True)"

text \<open>The rules as the specification words them: \<open>y[1] > y[0]\<close> when \<open>n \<ge> 2\<close>,
  \<open>x[2] > x[1]\<close> when \<open>n \<ge> 3\<close>, \<open>y[3] < y[2]\<close> and \<open>x[0] < x[3]\<close> when \<open>n \<ge> 4\<close>.\<close>

definition claimed_ordering_rules :: "nat \<Rightarrow> (nat \<Rightarrow> float) \<Rightarrow> (nat \<Rightarrow> float) \<Rightarrow> bool" where
  "claimed_ordering_rules n x y =
     ((n < 2 \<or> float_greater (y 1) (y 0))
    \<and> (n < 3 \<or> float_greater (x 2) (x 1))
    \<and> (n < 4 \<or> float_less (y 3) (y 2))
    \<and> (n < 4 \<or> float_less (x 0) (x 3)))"

text \<open>The coordinates that the applicable rules compare are numbers, not NaN.\<close>

fun is_number :: "float \<Rightarrow> bool" where
  "is_number NaN = False"
| "is_number a = True"

definition compared_are_numbers :: "nat \<Rightarrow> (nat \<Rightarrow> float) \<Rightarrow> (nat \<Rightarrow> float) \<Rightarrow> bool" where
  "compared_are_numbers n x y =
     ((n < 2 \<or> (is_number (y 1) \<and> is_number (y 0)))
    \<and> (n < 3 \<or> (is_number (x 2) \<and> is_number (x 1)))
    \<and> (n < 4 \<or> (is_number (y 3) \<and> is_number (y 2) \<and> is_number (x 0) \<and> is_number (x 3))))"

text \<open>Coordinate arrays to run the check on: all zero; zero with NaN at index 1; the
  corners of the unit square in the order the check expects.\<close>

definition zero_points :: "nat \<Rightarrow> float" where
  "zero_points i = Finite 0"

definition nan_at_1 :: "nat \<Rightarrow> float" where
  "nan_at_1 i = (if i = 1 then NaN else Finite 0)"

definition corner_x :: "nat \<Rightarrow> float" where
  "corner_x i = (if i = 2 \<or> i = 3 then Finite 1 else Finite 0)"

definition corner_y :: "nat \<Rightarrow> float" where
  "corner_y i = (if i = 1 \<or> i = 2 then Finite 1 else Finite 0)"

section \<open>Lemmas\<close>

subsection \<open>The status bits\<close>

lemma bit_single: "bit (push_bit k (1 :: 8 word)) n = (n = k \<and> k < 8)"
  by (auto simp only: bit_push_bit_iff bit_1_iff possible_bit_word) simp_all

lemma flag_bits:
  "bit xySet n = (n = 0)" "bit zSet n = (n = 1)" "bit xyCorrected n = (n = 2)" "bit probeError n = (n = 3)"
proof -
  have e: "xySet = push_bit 0 1" "zSet = push_bit 1 1" "xyCorrected = push_bit 2 1" "probeError = push_bit 3 1"
    by (simp_all add: xySet_def zSet_def xyCorrected_def probeError_def)
  show "bit xySet n = (n = 0)" by (simp only: e bit_single) simp
  show "bit zSet n = (n = 1)" by (simp only: e bit_single) simp
  show "bit xyCorrected n = (n = 2)" by (simp only: e bit_single) simp
  show "bit probeError n = (n = 3)" by (simp only: e bit_single) simp
qed

lemma mask_eq_iff: "(p AND m = k) = (\<forall>n. (bit p n \<and> bit m n) = bit k n)" for p :: "8 word"
proof
  assume "p AND m = k"
  then show "\<forall>n. (bit p n \<and> bit m n) = bit k n" by (auto simp add: bit_and_iff)
next
  assume "\<forall>n. (bit p n \<and> bit m n) = bit k n"
  then show "p AND m = k" by (intro bit_word_eqI) (simp add: bit_and_iff)
qed

lemma has_flag_bit:
  "has_flag p xySet = bit p 0" "has_flag p zSet = bit p 1"
  "has_flag p xyCorrected = bit p 2" "has_flag p probeError = bit p 3"
  unfolding has_flag_def mask_eq_iff by (simp_all add: flag_bits)

lemma fully_set_bits: "(p AND (xySet OR zSet) = (xySet OR zSet)) = (bit p 0 \<and> bit p 1)"
  unfolding mask_eq_iff by (auto simp add: bit_or_iff flag_bits)

lemma bit_set_flag: "bit (p OR flag) n = (bit p n \<or> bit flag n)" for p :: "8 word"
  by (simp add: bit_or_iff)

lemma bit_clear_flag: "bit (p AND NOT flag) n = (bit p n \<and> \<not> bit flag n)" for p :: "8 word"
  by (auto simp add: bit_and_iff bit_not_iff dest: bit_imp_le_length)

lemma probeError_test: "(p AND probeError = 0) = (\<not> bit p 3)"
  using has_flag_bit(4) [of p] unfolding has_flag_def by blast

subsection \<open>Comparisons of IEEE values\<close>

lemma not_float_less_eq:
  "is_number a \<Longrightarrow> is_number b \<Longrightarrow> (\<not> float_less_eq a b) = float_less b a"
  by (cases a; cases b) auto

lemma GoodProbePointOrdering_float_tests:
  "GoodProbePointOrdering_float n x y =
     (\<not> (2 \<le> n \<and> float_less_eq (y 1) (y 0))
    \<and> \<not> (3 \<le> n \<and> float_less_eq (x 2) (x 1))
    \<and> \<not> (4 \<le> n \<and> float_greater_eq (y 3) (y 2))
    \<and> \<not> (4 \<le> n \<and> float_greater_eq (x 0) (x 3)))"
  by (simp add: GoodProbePointOrdering_float_def)

lemma GoodProbePointOrdering_float_Finite:
  "GoodProbePointOrdering_float n (\<lambda>i. Finite (xBedProbePoints s i)) (\<lambda>i. Finite (yBedProbePoints s i))
     = GoodProbePointOrdering n s"
  by (simp add: GoodProbePointOrdering_float_def GoodProbePointOrdering_def float_greater_eq_def)

subsection \<open>The fields after each call\<close>

lemma SetXYBedProbePoint_fields:
  "xBedProbePoints (SetXYBedProbePoint i x y s) = (xBedProbePoints s)(i := x)"
  "yBedProbePoints (SetXYBedProbePoint i x y s) = (yBedProbePoints s)(i := y)"
  "zBedProbePoints (SetXYBedProbePoint i x y s) = zBedProbePoints s"
  "numBedCompensationPoints (SetXYBedProbePoint i x y s) = numBedCompensationPoints s"
  by (simp_all add: SetXYBedProbePoint_def)

lemma SetZBedProbePoint_fields:
  "xBedProbePoints (SetZBedProbePoint i z c e s) = xBedProbePoints s"
  "yBedProbePoints (SetZBedProbePoint i z c e s) = yBedProbePoints s"
  "zBedProbePoints (SetZBedProbePoint i z c e s) = (zBedProbePoints s)(i := z)"
  "numBedCompensationPoints (SetZBedProbePoint i z c e s) = numBedCompensationPoints s"
  by (simp_all add: SetZBedProbePoint_def Let_def)

lemma status_fields:
  "probePointSet (SetXYBedProbePoint i x y s) = (probePointSet s)(i := probePointSet s i OR xySet)"
  "probePointSet (SetZBedProbePoint i z c e s) =
     (probePointSet s)(i :=
        (let p1 = probePointSet s i OR zSet;
             p2 = (if c then p1 OR xyCorrected else p1 AND NOT xyCorrected)
         in if e then p2 OR probeError else p2 AND NOT probeError))"
  by (simp_all add: SetXYBedProbePoint_def SetZBedProbePoint_def Let_def)

lemma fit_accepted_fields:
  "returned (fit_accepted n s) = False"
  "numBedCompensationPoints (store (fit_accepted n s)) = n"
  "aX (store (fit_accepted n s)) = aX s"
  "aY (store (fit_accepted n s)) = aY s"
  "aC (store (fit_accepted n s)) = aC s"
  "xRectangle (store (fit_accepted n s)) = xRectangle s"
  "yRectangle (store (fit_accepted n s)) = yRectangle s"
  "xBedProbePoints (store (fit_accepted n s)) = xBedProbePoints s"
  "yBedProbePoints (store (fit_accepted n s)) = yBedProbePoints s"
  "zBedProbePoints (store (fit_accepted n s)) = zBedProbePoints s"
  by (simp_all add: fit_accepted_def)

subsection \<open>The loops in closed form\<close>

lemma RandomProbePointSet_loop_eq:
  "RandomProbePointSet_loop M i s =
     s\<lparr>probePointSet := (\<lambda>j. if i \<le> j \<and> j < M then unset else probePointSet s j),
       zBedProbePoints := (\<lambda>j. if i \<le> j \<and> j < M then 0 else zBedProbePoints s j)\<rparr>"
proof (induction M i s rule: RandomProbePointSet_loop.induct)
  case (1 M i s)
  show ?case
  proof (cases "i < M")
    case True
    show ?thesis
      using True by (subst RandomProbePointSet_loop.simps, subst "1.IH" [OF True]) (auto simp add: fun_eq_iff)
  next
    case False
    then have "(\<lambda>j. if i \<le> j \<and> j < M then unset else probePointSet s j) = probePointSet s"
      and "(\<lambda>j. if i \<le> j \<and> j < M then 0 else zBedProbePoints s j) = zBedProbePoints s"
      by (auto simp add: fun_eq_iff)
    with False show ?thesis by (subst RandomProbePointSet_loop.simps) simp
  qed
qed

lemma RandomProbePointSet_ctor_eq:
  "RandomProbePointSet_ctor M raw =
     raw\<lparr>numBedCompensationPoints := 0,
         probePointSet := (\<lambda>j. if j < M then unset else probePointSet raw j),
         zBedProbePoints := (\<lambda>j. if j < M then 0 else zBedProbePoints raw j)\<rparr>"
  by (simp add: RandomProbePointSet_ctor_def RandomProbePointSet_loop_eq cong: if_cong)

lemma ClearProbeHeights_loop_eq:
  "ClearProbeHeights_loop M i s =
     s\<lparr>probePointSet := (\<lambda>j. if i \<le> j \<and> j < M then probePointSet s j AND NOT zSet else probePointSet s j)\<rparr>"
proof (induction M i s rule: ClearProbeHeights_loop.induct)
  case (1 M i s)
  show ?case
  proof (cases "i < M")
    case True
    have "ClearProbeHeights_loop M i s =
        ClearProbeHeights_loop M (Suc i) (s\<lparr>probePointSet := (probePointSet s)(i := probePointSet s i AND NOT zSet)\<rparr>)"
      using True by (subst ClearProbeHeights_loop.simps) simp
    also have "\<dots> = s\<lparr>probePointSet := (\<lambda>j. if i \<le> j \<and> j < M then probePointSet s j AND NOT zSet else probePointSet s j)\<rparr>"
      using True by (subst "1.IH" [OF True]) (auto simp add: fun_eq_iff)
    finally show ?thesis .
  next
    case False
    then have "(\<lambda>j. if i \<le> j \<and> j < M then probePointSet s j AND NOT zSet else probePointSet s j) = probePointSet s"
      by (auto simp add: fun_eq_iff)
    with False show ?thesis by (subst ClearProbeHeights_loop.simps) simp
  qed
qed

lemma ClearProbeHeights_eq:
  "ClearProbeHeights M s =
     s\<lparr>probePointSet := (\<lambda>j. if j < M then probePointSet s j AND NOT zSet else probePointSet s j)\<rparr>"
  by (simp add: ClearProbeHeights_def ClearProbeHeights_loop_eq)

lemma NumberOfProbePoints_loop_takeWhile:
  "i \<le> M \<Longrightarrow> NumberOfProbePoints_loop M i s =
     i + length (takeWhile (\<lambda>p. has_flag p xySet \<and> has_flag p zSet) (map (probePointSet s) [i..<M]))"
proof (induction M i s rule: NumberOfProbePoints_loop.induct)
  case (1 M i s)
  show ?case
  proof (cases "i < M")
    case True
    then have u: "[i..<M] = i # [Suc i..<M]" by (simp add: upt_conv_Cons)
    show ?thesis
    proof (cases "probePointSet s i AND (xySet OR zSet) \<noteq> (xySet OR zSet)")
      case stop: True
      then show ?thesis using True
        by (subst NumberOfProbePoints_loop.simps) (simp add: u has_flag_bit fully_set_bits)
    next
      case go: False
      then show ?thesis using True "1.IH" [OF True go]
        by (subst NumberOfProbePoints_loop.simps) (simp add: u has_flag_bit fully_set_bits)
    qed
  next
    case False
    with "1.prems" show ?thesis by (subst NumberOfProbePoints_loop.simps) simp
  qed
qed

lemma NumberOfProbePoints_cleared: "NumberOfProbePoints M (ClearProbeHeights M s) = 0"
proof (cases "0 < M")
  case True
  then show ?thesis
    unfolding NumberOfProbePoints_def
    by (subst NumberOfProbePoints_loop.simps)
       (simp add: ClearProbeHeights_eq fully_set_bits bit_clear_flag flag_bits)
next
  case False
  then show ?thesis
    unfolding NumberOfProbePoints_def by (subst NumberOfProbePoints_loop.simps) simp
qed

lemma ReportProbeHeights_loop_sums:
  "snd (ReportProbeHeights_loop n i s acc) =
     (fst (snd acc) + sum_list (map (zBedProbePoints s) (filter (valid_record s) [i..<n])),
      snd (snd acc) + sum_list (map (\<lambda>j. fsquare (zBedProbePoints s j)) (filter (valid_record s) [i..<n])))"
proof (induction n i s acc rule: ReportProbeHeights_loop.induct)
  case (1 n i s r a b)
  show ?case
  proof (cases "i < n")
    case True
    then have u: "[i..<n] = i # [Suc i..<n]" by (simp add: upt_conv_Cons)
    have v: "valid_record s i = (probePointSet s i AND (xySet OR zSet) = (xySet OR zSet)
        \<and> probePointSet s i AND probeError = 0)"
      using has_flag_def [of "probePointSet s i" probeError]
      by (simp add: valid_record_def has_flag_bit fully_set_bits)
    show ?thesis
      using True "1.IH" [OF True]
      by (subst ReportProbeHeights_loop.simps) (simp add: u v)
  next
    case False
    then show ?thesis by (subst ReportProbeHeights_loop.simps) simp
  qed
qed

lemma ReportProbeHeights_mean:
  "report_mean (ReportProbeHeights n s) = sum_list (valid_heights n s) / real n"
  using ReportProbeHeights_loop_sums [of n 0 s "([], 0, 0)"]
  by (cases "ReportProbeHeights_loop n 0 s ([], 0, 0)")
     (simp add: ReportProbeHeights_def valid_heights_def Let_def)

lemma ReportProbeHeights_deviation:
  "report_deviation (ReportProbeHeights n s) =
     sqrt (max (sum_list (map fsquare (valid_heights n s)) / real n
                - fsquare (sum_list (valid_heights n s) / real n)) 0)"
  using ReportProbeHeights_loop_sums [of n 0 s "([], 0, 0)"]
  by (cases "ReportProbeHeights_loop n 0 s ([], 0, 0)")
     (simp add: ReportProbeHeights_def valid_heights_def Let_def comp_def)

lemma ReportProbeHeights_all_valid:
  assumes "0 < n" and "length (valid_heights n s) = n"
  shows "report_mean (ReportProbeHeights n s) = spec_mean (valid_heights n s)
       \<and> report_deviation (ReportProbeHeights n s) = spec_deviation (valid_heights n s)"
proof -
  have "fsquare = (\<lambda>z. z * z)" by (simp add: fun_eq_iff fsquare_def)
  then show ?thesis using assms
    by (simp add: ReportProbeHeights_mean ReportProbeHeights_deviation spec_mean_def
        spec_deviation_def fsquare_def max.commute)
qed

lemma ReportProbeHeights_example:
  "let s = SetZBedProbePoint 2 3 c2 False (SetXYBedProbePoint 2 x2 y2
          (SetZBedProbePoint 1 2 c1 False (SetXYBedProbePoint 1 x1 y1
          (SetZBedProbePoint 0 1 c0 False (SetXYBedProbePoint 0 x0 y0 s0)))));
       r = ReportProbeHeights 3 s
   in report_heights r = [HeightText 1, HeightText 2, HeightText 3]
    \<and> report_mean r = 2 \<and> report_deviation r = sqrt (2 / 3)"
proof -
  define s where "s = SetZBedProbePoint 2 3 c2 False (SetXYBedProbePoint 2 x2 y2
          (SetZBedProbePoint 1 2 c1 False (SetXYBedProbePoint 1 x1 y1
          (SetZBedProbePoint 0 1 c0 False (SetXYBedProbePoint 0 x0 y0 s0)))))"
  have z: "zBedProbePoints s 0 = 1" "zBedProbePoints s (Suc 0) = 2" "zBedProbePoints s (Suc (Suc 0)) = 3"
    unfolding s_def by (simp_all add: SetZBedProbePoint_fields SetXYBedProbePoint_fields)
  have f: "probePointSet s 0 AND (xySet OR zSet) = xySet OR zSet"
    "probePointSet s (Suc 0) AND (xySet OR zSet) = xySet OR zSet"
    "probePointSet s (Suc (Suc 0)) AND (xySet OR zSet) = xySet OR zSet"
    unfolding s_def fully_set_bits
    by (simp_all add: status_fields Let_def bit_set_flag bit_clear_flag flag_bits)
  have e: "probePointSet s 0 AND probeError = 0"
    "probePointSet s (Suc 0) AND probeError = 0"
    "probePointSet s (Suc (Suc 0)) AND probeError = 0"
    unfolding s_def probeError_test
    by (simp_all add: status_fields Let_def bit_set_flag bit_clear_flag flag_bits)
  have l: "ReportProbeHeights_loop 3 0 s ([], 0, 0) = ([HeightText 1, HeightText 2, HeightText 3], 6, 14)"
    by (simp add: ReportProbeHeights_loop.simps z f e fsquare_def)
  have "report_heights (ReportProbeHeights 3 s) = [HeightText 1, HeightText 2, HeightText 3]"
    "report_mean (ReportProbeHeights 3 s) = 2" "report_deviation (ReportProbeHeights 3 s) = sqrt (2 / 3)"
    by (simp_all add: ReportProbeHeights_def l Let_def fsquare_def)
  then show ?thesis
    unfolding Let_def s_def [symmetric] by (simp only: simp_thms)
qed

subsection \<open>The number of compensation points\<close>

lemma count_Clear: "numBedCompensationPoints (ClearProbeHeights M s) = numBedCompensationPoints s"
  by (simp add: ClearProbeHeights_eq)

lemma count_ctor: "numBedCompensationPoints (RandomProbePointSet_ctor M raw) = 0"
  by (simp add: RandomProbePointSet_ctor_eq)

lemma count_fit: "numBedCompensationPoints (store (SetProbedBedEquation n s)) = numBedCompensationPoints s
    \<or> numBedCompensationPoints (store (SetProbedBedEquation n s)) = 3
    \<or> numBedCompensationPoints (store (SetProbedBedEquation n s)) = 4"
  by (simp add: SetProbedBedEquation_def fit_accepted_fields Let_def)

lemma count_perform: "count_ok s \<Longrightarrow> count_ok (perform M s opn)"
proof (cases opn)
  case (CallSetProbedBedEquation n)
  assume "count_ok s"
  then show ?thesis using count_fit [of n s]
    unfolding count_ok_def CallSetProbedBedEquation perform.simps by presburger
qed (simp_all add: count_ok_def SetXYBedProbePoint_fields SetZBedProbePoint_fields count_Clear)

lemma count_run: "count_ok s \<Longrightarrow> count_ok (foldl (perform M) s ops)"
proof (induction ops arbitrary: s)
  case Nil
  then show ?case by simp
next
  case (Cons opn ops)
  from Cons.prems have "count_ok (perform M s opn)" by (rule count_perform)
  then have "count_ok (foldl (perform M) (perform M s opn) ops)" by (rule Cons.IH)
  then show ?case by simp
qed

section \<open>The claims\<close>

text \<open>Claim C1. Whatever the store held before, once the points 0, 1, 2 are recorded as
  (0,0,0), (0,1,2), (1,1,4) with \<^verbatim>\<open>SetXYBedProbePoint\<close> and \<^verbatim>\<open>SetZBedProbePoint\<close> (with any
  correction and error flags), \<^verbatim>\<open>SetProbedBedEquation(3, reply)\<close> returns false, that is, it
  succeeds, and \<^verbatim>\<open>GetInterpolatedHeightError(0, 0)\<close> is then exactly 0.\<close>

theorem plane_fit_at_origin: "let s3 = SetZBedProbePoint 2 4 c2 e2 (SetXYBedProbePoint 2 1 1
                 (SetZBedProbePoint 1 2 c1 e1 (SetXYBedProbePoint 1 0 1
                 (SetZBedProbePoint 0 0 c0 e0 (SetXYBedProbePoint 0 0 0 s)))));
        r = SetProbedBedEquation 3 s3
    in \<not> returned r \<and> GetInterpolatedHeightError 0 0 (store r) = 0"
  by (simp add: SetZBedProbePoint_fields SetXYBedProbePoint_fields SetProbedBedEquation_def
      GoodProbePointOrdering_def fit_accepted_fields GetInterpolatedHeightError_def Let_def)

text \<open>Claim C2. Whatever the store held before, once the points 0 to 3 are recorded as the
  corners (0,0,0), (0,1,1), (1,1,2), (1,0,1), \<^verbatim>\<open>SetProbedBedEquation(4, reply)\<close> succeeds;
  afterwards the height error at (0.5, 0.5) is 1, the average of the four corner heights,
  and at each corner it is that corner's height.\<close>

theorem bilinear_fit_at_corners_and_centre: "let s4 = SetZBedProbePoint 3 1 c3 e3 (SetXYBedProbePoint 3 1 0
                 (SetZBedProbePoint 2 2 c2 e2 (SetXYBedProbePoint 2 1 1
                 (SetZBedProbePoint 1 1 c1 e1 (SetXYBedProbePoint 1 0 1
                 (SetZBedProbePoint 0 0 c0 e0 (SetXYBedProbePoint 0 0 0 s)))))));
        r = SetProbedBedEquation 4 s4
    in \<not> returned r
     \<and> GetInterpolatedHeightError (1 / 2) (1 / 2) (store r) = 1
     \<and> GetInterpolatedHeightError 0 0 (store r) = 0
     \<and> GetInterpolatedHeightError 0 1 (store r) = 1
     \<and> GetInterpolatedHeightError 1 1 (store r) = 2
     \<and> GetInterpolatedHeightError 1 0 (store r) = 1"
  by (simp add: SetZBedProbePoint_fields SetXYBedProbePoint_fields SetProbedBedEquation_def
      GoodProbePointOrdering_def fit_accepted_fields GetInterpolatedHeightError_def
      SecondDegreeTransformZ_def Let_def)

text \<open>Claim C3. For every store, every fitted model in it and every \<open>n\<close>: if
  \<^verbatim>\<open>SetProbedBedEquation(n, reply)\<close> fails, then the ordering check rejected the points or
  \<open>n\<close> is neither 3 nor 4, and the whole object (the number of compensation points, the
  coefficients and every probe point record) is as it was.\<close>

theorem SetProbedBedEquation_failure_keeps_state:
  assumes "returned (SetProbedBedEquation n s)"
  shows "store (SetProbedBedEquation n s) = s \<and> (\<not> GoodProbePointOrdering n s \<or> (n \<noteq> 3 \<and> n \<noteq> 4))"
  using assms by (auto simp add: SetProbedBedEquation_def fit_accepted_def Let_def split: if_splits)

theorem SetProbedBedEquation_failure_keeps_state_witness:
  "returned (SetProbedBedEquation 2 used_storage)
   \<and> store (SetProbedBedEquation 2 used_storage) = used_storage"
proof -
  have h: "returned (SetProbedBedEquation 2 used_storage)"
    by (simp add: SetProbedBedEquation_def GoodProbePointOrdering_def used_storage_def)
  from SetProbedBedEquation_failure_keeps_state [OF h] h show ?thesis by simp
qed

text \<open>Claim C4. The claim reads: for every store and every \<open>n\<close>,
  \<^verbatim>\<open>GoodProbePointOrdering(n)\<close> is true exactly when every applicable rule holds
  (\<open>y[1] > y[0]\<close> when \<open>n \<ge> 2\<close>, \<open>x[2] > x[1]\<close> when \<open>n \<ge> 3\<close>, \<open>y[3] < y[2]\<close> and
  \<open>x[0] < x[3]\<close> when \<open>n \<ge> 4\<close>). The function returns false when one of the opposite
  comparisons (\<open>y[1] <= y[0]\<close>, \<open>x[2] <= x[1]\<close>, \<open>y[3] >= y[2]\<close>, \<open>x[0] >= x[3]\<close>) holds,
  and these are false on NaN. With \<open>n = 2\<close>, \<open>y[0] = 0\<close> and \<open>y[1]\<close> NaN the function
  returns true although \<open>y[1] > y[0]\<close> is false.\<close>

theorem GoodProbePointOrdering_nan_counterexample:
  "GoodProbePointOrdering_float 2 zero_points nan_at_1
   \<and> \<not> claimed_ordering_rules 2 zero_points nan_at_1"
  by (simp add: GoodProbePointOrdering_float_def claimed_ordering_rules_def zero_points_def
      nan_at_1_def float_greater_def)

text \<open>Claim C4, amended. For every \<open>n\<close> and every store in which the coordinates compared
  by the applicable rules are not NaN, \<^verbatim>\<open>GoodProbePointOrdering(n)\<close> is true exactly when
  every applicable rule holds; so it is true for every \<open>n \<le> 1\<close>.\<close>

theorem GoodProbePointOrdering_rules_without_nan:
  assumes "compared_are_numbers n x y"
  shows "GoodProbePointOrdering_float n x y = claimed_ordering_rules n x y
       \<and> (n \<le> 1 \<longrightarrow> GoodProbePointOrdering_float n x y)"
proof -
  have t: "GoodProbePointOrdering_float n x y =
     (\<not> (2 \<le> n \<and> float_less_eq (y 1) (y 0))
    \<and> \<not> (3 \<le> n \<and> float_less_eq (x 2) (x 1))
    \<and> \<not> (4 \<le> n \<and> float_less_eq (y 2) (y 3))
    \<and> \<not> (4 \<le> n \<and> float_less_eq (x 3) (x 0)))"
    by (simp add: GoodProbePointOrdering_float_def float_greater_eq_def)
  have a: "2 \<le> n \<Longrightarrow> (\<not> float_less_eq (y 1) (y 0)) = float_less (y 0) (y 1)"
    using assms by (intro not_float_less_eq) (auto simp add: compared_are_numbers_def)
  have b: "3 \<le> n \<Longrightarrow> (\<not> float_less_eq (x 2) (x 1)) = float_less (x 1) (x 2)"
    using assms by (intro not_float_less_eq) (auto simp add: compared_are_numbers_def)
  have c: "4 \<le> n \<Longrightarrow> (\<not> float_less_eq (y 2) (y 3)) = float_less (y 3) (y 2)"
    using assms by (intro not_float_less_eq) (auto simp add: compared_are_numbers_def)
  have d: "4 \<le> n \<Longrightarrow> (\<not> float_less_eq (x 3) (x 0)) = float_less (x 0) (x 3)"
    using assms by (intro not_float_less_eq) (auto simp add: compared_are_numbers_def)
  have "GoodProbePointOrdering_float n x y = claimed_ordering_rules n x y"
    unfolding t claimed_ordering_rules_def float_greater_def using a b c d
    by (cases "2 \<le> n"; cases "3 \<le> n"; cases "4 \<le> n") (simp_all add: not_le)
  moreover have "n \<le> 1 \<longrightarrow> GoodProbePointOrdering_float n x y"
    by (simp add: GoodProbePointOrdering_float_def)
  ultimately show ?thesis by simp
qed

theorem GoodProbePointOrdering_rules_without_nan_witness:
  "compared_are_numbers 4 corner_x corner_y
   \<and> GoodProbePointOrdering_float 4 corner_x corner_y
   \<and> claimed_ordering_rules 4 corner_x corner_y"
proof -
  have h: "compared_are_numbers 4 corner_x corner_y"
    by (simp add: compared_are_numbers_def corner_x_def corner_y_def)
  have r: "claimed_ordering_rules 4 corner_x corner_y"
    by (simp add: claimed_ordering_rules_def corner_x_def corner_y_def float_greater_def)
  from GoodProbePointOrdering_rules_without_nan [OF h] h r show ?thesis by simp
qed

text \<open>Claim C5. The claim reads: for every \<open>n \<ge> 1\<close> and every store, the mean and the
  deviation reported by \<^verbatim>\<open>ReportProbeHeights(n, reply)\<close> are the mean and the population
  standard deviation of the valid heights among the first \<open>n\<close> records. The function
  divides the sums over the valid heights by \<open>n\<close>, not by the number of valid heights
  (lemmas \<open>ReportProbeHeights_mean\<close> and \<open>ReportProbeHeights_deviation\<close>), so the two agree
  when all \<open>n\<close> records are valid (lemma \<open>ReportProbeHeights_all_valid\<close>; the heights 1, 2, 3
  give 2 and \<open>sqrt (2/3)\<close>, lemma \<open>ReportProbeHeights_example\<close>) and differ otherwise. Here: a
  fresh store of four records, point 0 probed at height 2, point 1 probed with a probe
  error. Both records are defined, so \<^verbatim>\<open>NumberOfProbePoints\<close> is 2; the report over these
  two records gives mean 1 and deviation 1, while the only valid height is 2, with mean 2
  and deviation 0.\<close>

theorem ReportProbeHeights_divides_by_numPoints: "let s = SetZBedProbePoint 1 0 False True (SetXYBedProbePoint 1 0 1
                (SetZBedProbePoint 0 2 False False (SetXYBedProbePoint 0 0 0
                (RandomProbePointSet_ctor 4 used_storage))));
        r = ReportProbeHeights 2 s
    in NumberOfProbePoints 4 s = 2
     \<and> report_heights r = [HeightText 2, ProbingFailedText]
     \<and> valid_heights 2 s = [2]
     \<and> report_mean r = 1 \<and> spec_mean (valid_heights 2 s) = 2
     \<and> report_deviation r = 1 \<and> spec_deviation (valid_heights 2 s) = 0"
proof -
  define s where "s = SetZBedProbePoint 1 0 False True (SetXYBedProbePoint 1 0 1
                (SetZBedProbePoint 0 2 False False (SetXYBedProbePoint 0 0 0
                (RandomProbePointSet_ctor 4 used_storage))))"
  have st: "probePointSet s 0 = 3" "probePointSet s (Suc 0) = 11" "probePointSet s (Suc (Suc 0)) = 0"
    "zBedProbePoints s 0 = 2" "zBedProbePoints s (Suc 0) = 0"
    unfolding s_def
    by (simp_all add: status_fields SetZBedProbePoint_fields SetXYBedProbePoint_fields
        RandomProbePointSet_ctor_eq used_storage_def Let_def
        unset_def xySet_def zSet_def xyCorrected_def probeError_def)
  have fl: "(3 :: 8 word) AND (xySet OR zSet) = xySet OR zSet" "(3 :: 8 word) AND probeError = 0"
    "(11 :: 8 word) AND (xySet OR zSet) = xySet OR zSet" "(11 :: 8 word) AND probeError \<noteq> 0"
    "xySet OR zSet \<noteq> 0" "0 \<noteq> xySet OR zSet"
    by (simp_all add: xySet_def zSet_def probeError_def)
  have n: "NumberOfProbePoints 4 s = 2"
    by (simp add: NumberOfProbePoints_def NumberOfProbePoints_loop.simps st fl)
  have l: "ReportProbeHeights_loop 2 0 s ([], 0, 0) = ([HeightText 2, ProbingFailedText], 2, 4)"
    by (simp add: ReportProbeHeights_loop.simps st fl fsquare_def)
  have r: "report_heights (ReportProbeHeights 2 s) = [HeightText 2, ProbingFailedText]"
    "report_mean (ReportProbeHeights 2 s) = 1" "report_deviation (ReportProbeHeights 2 s) = 1"
    by (simp_all add: ReportProbeHeights_def l Let_def fsquare_def)
  have u: "[0..<2] = [0, Suc 0]"
    by (simp add: numeral_2_eq_2)
  have v: "valid_heights 2 s = [2]"
    by (simp add: valid_heights_def valid_record_def has_flag_def u st
        xySet_def zSet_def probeError_def)
  have m: "spec_mean [2] = 2" "spec_deviation [2] = 0"
    by (simp_all add: spec_mean_def spec_deviation_def)
  show ?thesis
    unfolding Let_def s_def [symmetric] by (simp only: n r v m simp_thms)
qed

text \<open>Claim C6. For every store, \<^verbatim>\<open>NumberOfProbePoints()\<close> is the length of the longest
  prefix of the \<^verbatim>\<open>MaxProbePoints\<close> records in which every record has both \<^verbatim>\<open>xySet\<close> and
  \<^verbatim>\<open>zSet\<close>; it is \<^verbatim>\<open>MaxProbePoints\<close> when that prefix is the whole array.\<close>

theorem NumberOfProbePoints_longest_prefix: "NumberOfProbePoints M s =
     length (takeWhile (\<lambda>p. has_flag p xySet \<and> has_flag p zSet) (map (probePointSet s) [0..<M]))
   \<and> NumberOfProbePoints M s \<le> M"
proof -
  have e: "NumberOfProbePoints M s =
     length (takeWhile (\<lambda>p. has_flag p xySet \<and> has_flag p zSet) (map (probePointSet s) [0..<M]))"
    using NumberOfProbePoints_loop_takeWhile [of 0 M s] by (simp add: NumberOfProbePoints_def)
  have "length (takeWhile (\<lambda>p. has_flag p xySet \<and> has_flag p zSet) (map (probePointSet s) [0..<M])) \<le> length (map (probePointSet s) [0..<M])"
    by (rule length_takeWhile_le)
  then show ?thesis using e by simp
qed

text \<open>Claim C7. For every index, height and pair of booleans, and whatever the flags of the
  record were: after \<^verbatim>\<open>SetZBedProbePoint(i, z, wasXyCorrected, wasError)\<close> record \<open>i\<close> holds
  \<open>z\<close>, has \<^verbatim>\<open>zSet\<close>, has \<^verbatim>\<open>xyCorrected\<close> exactly when \<open>wasXyCorrected\<close>, and has
  \<^verbatim>\<open>probeError\<close> exactly when \<open>wasError\<close>. The statement holds for every index of the
  model, in particular for those below \<^verbatim>\<open>MaxProbePoints\<close>.\<close>

theorem SetZBedProbePoint_overwrites_flags: "let s' = SetZBedProbePoint i z wasXyCorrected wasError s
    in zBedProbePoints s' i = z
     \<and> has_flag (probePointSet s' i) zSet
     \<and> has_flag (probePointSet s' i) xyCorrected = wasXyCorrected
     \<and> has_flag (probePointSet s' i) probeError = wasError"
  by (simp add: SetZBedProbePoint_def Let_def has_flag_bit bit_set_flag bit_clear_flag flag_bits)

text \<open>Claim C8. For every store, \<^verbatim>\<open>ClearProbeHeights()\<close> clears \<^verbatim>\<open>zSet\<close> on every record and
  changes nothing else: the other flags of every record, the coordinates, the stored
  heights and the fitted model are as before; \<^verbatim>\<open>NumberOfProbePoints()\<close> is then 0.\<close>

theorem ClearProbeHeights_frame: "let s' = ClearProbeHeights M s
   in (\<forall>i<M. \<not> has_flag (probePointSet s' i) zSet)
    \<and> (\<forall>i. has_flag (probePointSet s' i) xySet = has_flag (probePointSet s i) xySet)
    \<and> (\<forall>i. has_flag (probePointSet s' i) xyCorrected = has_flag (probePointSet s i) xyCorrected)
    \<and> (\<forall>i. has_flag (probePointSet s' i) probeError = has_flag (probePointSet s i) probeError)
    \<and> xBedProbePoints s' = xBedProbePoints s
    \<and> yBedProbePoints s' = yBedProbePoints s
    \<and> zBedProbePoints s' = zBedProbePoints s
    \<and> numBedCompensationPoints s' = numBedCompensationPoints s
    \<and> aX s' = aX s \<and> aY s' = aY s \<and> aC s' = aC s
    \<and> xRectangle s' = xRectangle s \<and> yRectangle s' = yRectangle s
    \<and> NumberOfProbePoints M s' = 0"
  unfolding Let_def NumberOfProbePoints_cleared
  by (simp add: ClearProbeHeights_eq has_flag_bit bit_clear_flag flag_bits)

theorem ClearProbeHeights_frame_witness:
  "(2 :: nat) < 4
   \<and> has_flag (probePointSet used_storage 2) zSet
   \<and> \<not> has_flag (probePointSet (ClearProbeHeights 4 used_storage) 2) zSet
   \<and> has_flag (probePointSet (ClearProbeHeights 4 used_storage) 2) xySet
   \<and> NumberOfProbePoints 4 (ClearProbeHeights 4 used_storage) = 0"
proof -
  have a: "\<forall>i<4. \<not> has_flag (probePointSet (ClearProbeHeights 4 used_storage) i) zSet"
    and b: "\<forall>i. has_flag (probePointSet (ClearProbeHeights 4 used_storage) i) xySet
            = has_flag (probePointSet used_storage i) xySet"
    and c: "NumberOfProbePoints 4 (ClearProbeHeights 4 used_storage) = 0"
    using ClearProbeHeights_frame [of 4 used_storage] by (simp_all add: Let_def)
  have d: "has_flag (probePointSet used_storage 2) zSet" "has_flag (probePointSet used_storage 2) xySet"
    by (simp_all add: used_storage_def has_flag_def zSet_def xySet_def)
  from a have "\<not> has_flag (probePointSet (ClearProbeHeights 4 used_storage) 2) zSet" by simp
  with b c d show ?thesis by simp
qed

text \<open>Claim C9. \<^verbatim>\<open>numBedCompensationPoints\<close> is always 0, 3 or 4: the constructor sets it to
  0; \<^verbatim>\<open>SetXYBedProbePoint\<close>, \<^verbatim>\<open>SetZBedProbePoint\<close> and \<^verbatim>\<open>ClearProbeHeights\<close> keep it;
  \<^verbatim>\<open>SetProbedBedEquation\<close> keeps it or sets it to 3 or 4; so after the constructor and any
  sequence of these calls it is 0, 3 or 4, and \<^verbatim>\<open>GetInterpolatedHeightError\<close> takes its
  default branch (returning 0) only when it is 0.\<close>

theorem numBedCompensationPoints_invariant:
  "numBedCompensationPoints (RandomProbePointSet_ctor M raw) = 0
  \<and> numBedCompensationPoints (SetXYBedProbePoint i x y s) = numBedCompensationPoints s
  \<and> numBedCompensationPoints (SetZBedProbePoint i z c e s) = numBedCompensationPoints s
  \<and> numBedCompensationPoints (ClearProbeHeights M s) = numBedCompensationPoints s
  \<and> numBedCompensationPoints (store (SetProbedBedEquation n s)) \<in> {numBedCompensationPoints s, 3, 4}
  \<and> numBedCompensationPoints (foldl (perform M) (RandomProbePointSet_ctor M raw) ops) \<in> {0, 3, 4}
  \<and> (let t = foldl (perform M) (RandomProbePointSet_ctor M raw) ops
     in GetInterpolatedHeightError qx qy t =
        (if numBedCompensationPoints t = 0 then 0
         else if numBedCompensationPoints t = 3 then aX t * qx + aY t * qy + aC t
         else SecondDegreeTransformZ qx qy t))"
proof -
  have a: "numBedCompensationPoints (store (SetProbedBedEquation n s)) \<in> {numBedCompensationPoints s, 3, 4}"
    using count_fit [of n s] by blast
  have "count_ok (RandomProbePointSet_ctor M raw)" by (simp add: count_ok_def count_ctor)
  then have k: "count_ok (foldl (perform M) (RandomProbePointSet_ctor M raw) ops)" by (rule count_run)
  then have b: "numBedCompensationPoints (foldl (perform M) (RandomProbePointSet_ctor M raw) ops) \<in> {0, 3, 4}"
    unfolding count_ok_def by blast
  have g: "let t = foldl (perform M) (RandomProbePointSet_ctor M raw) ops
     in GetInterpolatedHeightError qx qy t =
        (if numBedCompensationPoints t = 0 then 0
         else if numBedCompensationPoints t = 3 then aX t * qx + aY t * qy + aC t
         else SecondDegreeTransformZ qx qy t)"
    using k unfolding count_ok_def Let_def GetInterpolatedHeightError_def by auto
  show ?thesis
    using a b g by (simp only: count_ctor SetXYBedProbePoint_fields SetZBedProbePoint_fields count_Clear simp_thms)
qed

text \<open>Claim C10. \<^verbatim>\<open>SetProbedBedEquation(n, reply)\<close> returns true exactly when the fit fails
  (the ordering check rejects the points, or \<open>n\<close> is neither 3 nor 4) and false when it
  succeeds: true signals the error.\<close>

theorem SetProbedBedEquation_returns_true_on_error: "returned (SetProbedBedEquation n s) = (\<not> (GoodProbePointOrdering n s \<and> (n = 3 \<or> n = 4)))"
  by (simp add: SetProbedBedEquation_def fit_accepted_def Let_def)

theorem SetProbedBedEquation_returns_true_on_error_witness:
  "returned (SetProbedBedEquation 5 used_storage)
   \<and> \<not> returned (SetProbedBedEquation 3
        (SetXYBedProbePoint 2 1 1 (SetXYBedProbePoint 1 0 1 (SetXYBedProbePoint 0 0 0 used_storage))))"
  using SetProbedBedEquation_returns_true_on_error [of 5 used_storage]
    SetProbedBedEquation_returns_true_on_error
      [of 3 "SetXYBedProbePoint 2 1 1 (SetXYBedProbePoint 1 0 1 (SetXYBedProbePoint 0 0 0 used_storage))"]
  by (simp add: GoodProbePointOrdering_def SetXYBedProbePoint_fields)

end
